theory Spec2Isabelle
  imports Main
begin

section \<open>The webhook relay of micromdm-webhook.go\<close>

text \<open>
  The program is one Go file. A \<open>Server\<close> holds the URL and API key of a MicroMDM
  server and a map from device identifiers to \<open>Device\<close> records. Its HTTP handler
  \<open>handleWebhook\<close> decodes an event, switches on the topic and calls one of four
  handlers, which write to the map, to the response, to two loggers, and (for a token
  update) post a command to the MicroMDM server.

  The model is a state-passing one: a handler takes the state of the process and returns
  the state after the call. What the Go libraries answer (whether a request can be built,
  what the HTTP client returns) is a parameter of the model, the record \<open>env\<close>.
\<close>

subsection \<open>Data of the source\<close>

text \<open>\<open>type Device struct { UDID string; Enrolled bool }\<close>\<close>

record Device =
  UDID :: string
  Enrolled :: bool

text \<open>
  \<open>type Server struct { MDMServerURL string; MDMAPIKey string; Devices map[string]Device }\<close>
\<close>

record Server =
  MDMServerURL :: string
  MDMAPIKey :: string
  Devices :: "string \<rightharpoonup> Device"

text \<open>
  \<open>type Command struct\<close> with the JSON tags \<open>udid\<close> and \<open>request_type\<close>. The field
  \<open>UDID\<close> carries a suffix here, since the record \<open>Device\<close> has the name already.
\<close>

record Command =
  UDID_cmd :: string
  RequestType :: string

subsection \<open>Data of the imported packages\<close>

text \<open>
  \<open>webhook.Event\<close> is declared in the package \<open>github.com/micromdm/micromdm/workflow/webhook\<close>,
  outside this repository. The handlers read the topic, the two optional payloads (Go
  pointers, \<open>nil\<close> when absent), the UDID of the checkin payload and the raw payload of
  the acknowledge payload; the other fields of the package's structs are never read and
  are left out.
\<close>

record CheckinEvent =
  UDID_checkin :: string

record AcknowledgeEvent =
  UDID_ack :: string
  RawPayload :: string

record Event =
  Topic :: string
  CheckinEvent :: "CheckinEvent option"
  AcknowledgeEvent :: "AcknowledgeEvent option"

text \<open>The four topic constants of the package \<open>github.com/micromdm/micromdm/mdm\<close>.\<close>

definition AuthenticateTopic :: string where
  "AuthenticateTopic = ''mdm.Authenticate''"

definition TokenUpdateTopic :: string where
  "TokenUpdateTopic = ''mdm.TokenUpdate''"

definition ConnectTopic :: string where
  "ConnectTopic = ''mdm.Connect''"

definition CheckoutTopic :: string where
  "CheckoutTopic = ''mdm.CheckOut''"

subsection \<open>Effects\<close>

text \<open>
  The source logs through two loggers: \<open>logrus\<close> (\<open>Infof\<close>, \<open>Warnf\<close>, \<open>Error\<close>,
  \<open>Errorf\<close>) and the standard \<open>log\<close> (\<open>Println\<close>, \<open>Fatal\<close>). A log entry records the
  call as the source writes it: the format string and the operands. The verb \<open>%+v\<close>
  applied to an event prints the two payload pointers as addresses, so an entry with an
  \<open>ArgEvent\<close> operand does not show the payloads' contents.
\<close>

datatype log_arg = ArgEvent Event | ArgStr string

datatype log_entry =
    LogrusInfof string "log_arg list"
  | LogrusWarnf string "log_arg list"
  | LogrusError string
  | LogrusErrorf string "log_arg list"
  | LogPrintln "string list"
  | LogFatal string

text \<open>
  The \<open>http.ResponseWriter\<close>: the status code once \<open>WriteHeader\<close> has been called
  (\<open>None\<close> before), and the body written so far. A handler that returns without writing
  a header answers 200.
\<close>

record ResponseWriter =
  wrote_header :: "nat option"
  resp_body :: string

definition StatusBadRequest :: nat where
  "StatusBadRequest = 400"

definition StatusOK :: nat where
  "StatusOK = 200"

text \<open>
  \<open>http.Error(w, msg, code)\<close>: writes the header with the code (a second
  \<open>WriteHeader\<close> on the same writer is ignored by net/http) and prints the message and a
  newline to the body.
\<close>

definition http_Error :: "ResponseWriter \<Rightarrow> string \<Rightarrow> nat \<Rightarrow> ResponseWriter" where
  "http_Error w msg code =
     w\<lparr>wrote_header := (case wrote_header w of None \<Rightarrow> Some code | Some c \<Rightarrow> Some c),
       resp_body := resp_body w @ msg @ [CHR 0x0A]\<rparr>"

definition response_status :: "ResponseWriter \<Rightarrow> nat" where
  "response_status w = (case wrote_header w of None \<Rightarrow> StatusOK | Some c \<Rightarrow> c)"

text \<open>
  An outbound request as \<open>sendCommandToDevice\<close> builds it: method, URL, the credentials
  of \<open>SetBasicAuth\<close> (\<open>None\<close> before the call), and the body, the JSON object that
  \<open>json.Encoder.Encode\<close> writes for a \<open>Command\<close>, as its list of members.
\<close>

record Request =
  req_method :: string
  req_url :: string
  req_basic_auth :: "(string \<times> string) option"
  req_body :: "(string \<times> string) list"

definition json_Encode :: "Command \<Rightarrow> (string \<times> string) list" where
  "json_Encode c = [(''udid'', UDID_cmd c), (''request_type'', RequestType c)]"

text \<open>
  What \<open>client.Do\<close> returns: a non-nil error (a transport failure, no response), or a
  response with its status code and a nil error. A response with a status other than
  2xx, such as 401 for rejected credentials, is not an error of \<open>client.Do\<close>.
\<close>

datatype do_result = DoError string | DoResponse nat

text \<open>
  The answers of the libraries, parameters of the model:
  \<^item> \<open>NewRequest_err method url\<close> is the error of \<open>http.NewRequest\<close> (\<open>None\<close> when it
    builds the request; it returns a nil request with an error when the URL does not
    parse);
  \<^item> \<open>client_Do n req\<close> is the result of the call of \<open>client.Do\<close> that follows \<open>n\<close>
    earlier calls.
\<close>

record env =
  NewRequest_err :: "string \<Rightarrow> string \<Rightarrow> string option"
  client_Do :: "nat \<Rightarrow> Request \<Rightarrow> do_result"

text \<open>
  How a handler call ends: it returns; it panics (net/http recovers the panic of a
  handler, the process keeps serving); or the process exits (\<open>log.Fatal\<close> calls
  \<open>os.Exit(1)\<close>).
\<close>

datatype proc_status = Running | Panicked | Exited nat

record world =
  srv :: Server
  resp :: ResponseWriter
  logs :: "log_entry list"
  sent :: "Request list"
  proc :: proc_status

subsection \<open>The functions of the source\<close>

text \<open>
  \<open>d := s.Devices[k]\<close>: a Go map read of a missing key gives the zero value of the
  element type.
\<close>

definition zero_Device :: Device where
  "zero_Device = \<lparr>UDID = [], Enrolled = False\<rparr>"

definition lookup_Device :: "Server \<Rightarrow> string \<Rightarrow> Device \<times> bool" where
  "lookup_Device s k =
     (case Devices s k of None \<Rightarrow> (zero_Device, False) | Some d \<Rightarrow> (d, True))"

definition store_Device :: "string \<Rightarrow> Device \<Rightarrow> world \<Rightarrow> world" where
  "store_Device k d st = st\<lparr>srv := (srv st)\<lparr>Devices := (Devices (srv st))(k \<mapsto> d)\<rparr>\<rparr>"

definition log_add :: "log_entry \<Rightarrow> world \<Rightarrow> world" where
  "log_add l st = st\<lparr>logs := logs st @ [l]\<rparr>"

definition sendCommandToDevice :: "env \<Rightarrow> Device \<Rightarrow> string \<Rightarrow> world \<Rightarrow> world" where
  "sendCommandToDevice e d requestType st =
     (let c = \<lparr>UDID_cmd = UDID d, RequestType = requestType\<rparr>;
          b = json_Encode c;
          u = MDMServerURL (srv st) @ ''/v1/commands''
      in case NewRequest_err e ''POST'' u of
           Some err \<Rightarrow> st\<lparr>proc := Panicked\<rparr>
         | None \<Rightarrow>
             (let req0 = \<lparr>req_method = ''POST'', req_url = u,
                          req_basic_auth = None, req_body = b\<rparr>;
                  req = req0\<lparr>req_basic_auth := Some (''micromdm'', MDMAPIKey (srv st))\<rparr>;
                  st1 = st\<lparr>sent := sent st @ [req]\<rparr>
              in case client_Do e (length (sent st)) req of
                   DoError err \<Rightarrow>
                     (log_add (LogFatal err)
                        (log_add (LogrusErrorf ''send command to device: %v'' [ArgStr err]) st1))
                       \<lparr>proc := Exited 1\<rparr>
                 | DoResponse code \<Rightarrow> st1))"

definition handleAuthenticate :: "env \<Rightarrow> Event \<Rightarrow> world \<Rightarrow> world" where
  "handleAuthenticate e event st0 =
     (let st = log_add (LogrusInfof ''handleAuthenticate for event %+v'' [ArgEvent event]) st0
      in case CheckinEvent event of
           None \<Rightarrow>
             (log_add (LogrusError ''The event has no CheckinEvent'') st)
               \<lparr>resp := http_Error (resp st) ''The event has no CheckinEvent'' StatusBadRequest\<rparr>
         | Some ci \<Rightarrow>
             (let (d0, exists) = lookup_Device (srv st) (UDID_checkin ci);
                  d1 = d0\<lparr>UDID := UDID_checkin ci\<rparr>;
                  d = d1\<lparr>Enrolled := False\<rparr>;
                  st1 = store_Device (UDID_checkin ci) d st
              in if exists then log_add (LogPrintln [''re-enrolling device'', UDID d]) st1
                 else log_add (LogPrintln [''enrolling new device'', UDID d]) st1))"

definition handleTokenUpdate :: "env \<Rightarrow> Event \<Rightarrow> world \<Rightarrow> world" where
  "handleTokenUpdate e event st0 =
     (let st = log_add (LogrusInfof ''handleTokenUpdate for event %+v'' [ArgEvent event]) st0
      in case CheckinEvent event of
           None \<Rightarrow>
             (log_add (LogrusError ''The event has no CheckinEvent'') st)
               \<lparr>resp := http_Error (resp st) ''The event has no CheckinEvent'' StatusBadRequest\<rparr>
         | Some ci \<Rightarrow>
             (let (d0, exists) = lookup_Device (srv st) (UDID_checkin ci);
                  d1 = d0\<lparr>UDID := UDID_checkin ci\<rparr>;
                  d = d1\<lparr>Enrolled := True\<rparr>;
                  st1 = store_Device (UDID_checkin ci) d st
              in sendCommandToDevice e d ''InstalledApplicationList'' st1))"

text \<open>
  \<open>strings.Contains(s, substr)\<close>: whether \<open>substr\<close> occurs in \<open>s\<close> as a run of
  consecutive bytes; the empty string occurs in every string.
\<close>

fun HasPrefix :: "string \<Rightarrow> string \<Rightarrow> bool" where
  "HasPrefix s [] = True"
| "HasPrefix [] (p # ps) = False"
| "HasPrefix (c # cs) (p # ps) = (c = p \<and> HasPrefix cs ps)"

fun Contains :: "string \<Rightarrow> string \<Rightarrow> bool" where
  "Contains [] substr = (substr = [])"
| "Contains (c # cs) substr = (HasPrefix (c # cs) substr \<or> Contains cs substr)"

definition handleConnect :: "env \<Rightarrow> Event \<Rightarrow> world \<Rightarrow> world" where
  "handleConnect e event st0 =
     (let st = log_add (LogrusInfof ''handleConnect for event %+v'' [ArgEvent event]) st0
      in case AcknowledgeEvent event of
           None \<Rightarrow>
             (log_add (LogrusError ''The event has no AcknowledgeEvent'') st)
               \<lparr>resp := http_Error (resp st) ''The event has no AcknowledgeEvent'' StatusBadRequest\<rparr>
         | Some ack \<Rightarrow>
             (let xml = RawPayload ack
              in if Contains xml ''InstalledApplicationList''
                 then log_add (LogPrintln [xml]) st
                 else st))"

definition handleCheckOut :: "env \<Rightarrow> Event \<Rightarrow> world \<Rightarrow> world" where
  "handleCheckOut e event st0 =
     (let st = log_add (LogrusInfof ''handeCheckOUt for event %+v'' [ArgEvent event]) st0
      in case CheckinEvent event of
           None \<Rightarrow>
             (log_add (LogrusError ''The event has no CheckinEvent'') st)
               \<lparr>resp := http_Error (resp st) ''The event has no CheckinEvent'' StatusBadRequest\<rparr>
         | Some ci \<Rightarrow>
             (let (d0, exists) = lookup_Device (srv st) (UDID_checkin ci);
                  d1 = d0\<lparr>UDID := UDID_checkin ci\<rparr>;
                  d = d1\<lparr>Enrolled := False\<rparr>
              in store_Device (UDID_checkin ci) d st))"

text \<open>
  \<open>handleWebhook\<close> decodes the body of the request first. The decoder is a library: the
  model takes its result, \<open>Inl err\<close> for a decoding error and \<open>Inr event\<close> otherwise.
\<close>

definition warn_topic :: string where
  "warn_topic = ''The event's topic was not mdm.Authenticate, mdm.TokenUpdate, mdm.Connect, or mdm.Checkout. It was %q''"

definition handleWebhook :: "env \<Rightarrow> string + Event \<Rightarrow> world \<Rightarrow> world" where
  "handleWebhook e r st =
     (case r of
        Inl err \<Rightarrow>
          (log_add (LogrusErrorf ''decode JSON: %v'' [ArgStr err]) st)
            \<lparr>resp := http_Error (resp st) (''decode JSON: '' @ err) StatusBadRequest\<rparr>
      | Inr event \<Rightarrow>
          if Topic event = AuthenticateTopic then handleAuthenticate e event st
          else if Topic event = TokenUpdateTopic then handleTokenUpdate e event st
          else if Topic event = ConnectTopic then handleConnect e event st
          else if Topic event = CheckoutTopic then handleCheckOut e event st
          else log_add (LogrusWarnf warn_topic [ArgStr (Topic event)]) st)"

subsection \<open>Serving requests\<close>

text \<open>
  \<open>main\<close> registers \<open>handleWebhook\<close> with net/http and serves. Each request comes with
  a writer of its own, nothing written yet; a handler that panics is recovered by net/http
  and the next request is served; after \<open>os.Exit\<close> nothing is served. Requests are taken one
  after the other here (the source has no lock, and requests that overlap in time are
  outside this model).
\<close>

definition new_writer :: ResponseWriter where
  "new_writer = \<lparr>wrote_header = None, resp_body = []\<rparr>"

definition serve_one :: "env \<Rightarrow> string + Event \<Rightarrow> world \<Rightarrow> world" where
  "serve_one e r st = handleWebhook e r (st\<lparr>resp := new_writer, proc := Running\<rparr>)"

fun has_exited :: "proc_status \<Rightarrow> bool" where
  "has_exited (Exited n) = True"
| "has_exited Running = False"
| "has_exited Panicked = False"

fun serve :: "env \<Rightarrow> (string + Event) list \<Rightarrow> world \<Rightarrow> world" where
  "serve e [] st = st"
| "serve e (r # rs) st = (if has_exited (proc st) then st else serve e rs (serve_one e r st))"

text \<open>The requests of a list that the process receives: those that arrive before it exits.\<close>

fun received :: "env \<Rightarrow> (string + Event) list \<Rightarrow> world \<Rightarrow> (string + Event) list" where
  "received e [] st = []"
| "received e (r # rs) st =
     (if has_exited (proc st) then [] else r # received e rs (serve_one e r st))"

text \<open>The state \<open>main\<close> starts the server in: an empty map, nothing logged or sent.\<close>

definition initial_world :: "string \<Rightarrow> string \<Rightarrow> world" where
  "initial_world server_url api_key =
     \<lparr>srv = \<lparr>MDMServerURL = server_url, MDMAPIKey = api_key, Devices = Map.empty\<rparr>,
      resp = new_writer, logs = [], sent = [], proc = Running\<rparr>"

subsection \<open>Notions of the specification\<close>

text \<open>
  The identifiers a request references, in the words of the specification: the identifier
  that its checkin payload or its acknowledge payload carries.
\<close>

definition references :: "string + Event \<Rightarrow> string set" where
  "references r =
     (case r of
        Inl err \<Rightarrow> {}
      | Inr event \<Rightarrow>
          (case CheckinEvent event of None \<Rightarrow> {} | Some ci \<Rightarrow> {UDID_checkin ci})
          \<union> (case AcknowledgeEvent event of None \<Rightarrow> {} | Some ack \<Rightarrow> {UDID_ack ack}))"

text \<open>
  The identifiers a request has the source write to the map: the identifier of the checkin
  payload, when the topic is one of the three whose handler stores a device.
\<close>

definition registers :: "string + Event \<Rightarrow> string set" where
  "registers r =
     (case r of
        Inl err \<Rightarrow> {}
      | Inr event \<Rightarrow>
          if Topic event = AuthenticateTopic \<or> Topic event = TokenUpdateTopic
             \<or> Topic event = CheckoutTopic
          then (case CheckinEvent event of None \<Rightarrow> {} | Some ci \<Rightarrow> {UDID_checkin ci})
          else {})"

text \<open>
  A failed delivery, in the words of the specification: a transport failure, or the
  server rejecting the credentials of the POST (status 401).
\<close>

definition StatusUnauthorized :: nat where
  "StatusUnauthorized = 401"

fun delivery_failed :: "do_result \<Rightarrow> bool" where
  "delivery_failed (DoError err) = True"
| "delivery_failed (DoResponse code) = (code = StatusUnauthorized)"

text \<open>The request that \<open>sendCommandToDevice\<close> hands to \<open>client.Do\<close>.\<close>

definition command_request :: "Server \<Rightarrow> string \<Rightarrow> string \<Rightarrow> Request" where
  "command_request s udid requestType =
     \<lparr>req_method = ''POST'', req_url = MDMServerURL s @ ''/v1/commands'',
      req_basic_auth = Some (''micromdm'', MDMAPIKey s),
      req_body = [(''udid'', udid), (''request_type'', requestType)]\<rparr>"

subsection \<open>Concrete environments, states and events\<close>

definition env_up :: env where
  "env_up = \<lparr>NewRequest_err = (\<lambda>m u. None), client_Do = (\<lambda>n r. DoResponse 200)\<rparr>"

definition env_unauthorized :: env where
  "env_unauthorized =
     \<lparr>NewRequest_err = (\<lambda>m u. None), client_Do = (\<lambda>n r. DoResponse 401)\<rparr>"

definition env_down :: env where
  "env_down =
     \<lparr>NewRequest_err = (\<lambda>m u. None),
      client_Do = (\<lambda>n r. DoError ''connection refused'')\<rparr>"

definition env_bad_url :: env where
  "env_bad_url =
     \<lparr>NewRequest_err = (\<lambda>m u. Some ''parse: missing protocol scheme''),
      client_Do = (\<lambda>n r. DoResponse 200)\<rparr>"

definition world0 :: world where
  "world0 = initial_world ''https://mdm.example.com'' ''secret''"

definition world1 :: world where
  "world1 =
     \<lparr>srv = \<lparr>MDMServerURL = ''https://mdm.example.com'', MDMAPIKey = ''secret'',
              Devices = [''ABC'' \<mapsto> \<lparr>UDID = ''ABC'', Enrolled = True\<rparr>,
                         ''XYZ'' \<mapsto> \<lparr>UDID = ''XYZ'', Enrolled = True\<rparr>]\<rparr>,
      resp = new_writer, logs = [],
      sent = [command_request
                \<lparr>MDMServerURL = ''https://mdm.example.com'', MDMAPIKey = ''secret'',
                  Devices = Map.empty\<rparr> ''ABC'' ''InstalledApplicationList''],
      proc = Running\<rparr>"

definition checkin_event :: "string \<Rightarrow> string \<Rightarrow> Event" where
  "checkin_event topic udid =
     \<lparr>Topic = topic, CheckinEvent = Some \<lparr>UDID_checkin = udid\<rparr>, AcknowledgeEvent = None\<rparr>"

definition ack_event :: "string \<Rightarrow> string \<Rightarrow> string \<Rightarrow> Event" where
  "ack_event topic udid raw =
     \<lparr>Topic = topic, CheckinEvent = None,
      AcknowledgeEvent = Some \<lparr>UDID_ack = udid, RawPayload = raw\<rparr>\<rparr>"

definition bare_event :: "string \<Rightarrow> Event" where
  "bare_event topic = \<lparr>Topic = topic, CheckinEvent = None, AcknowledgeEvent = None\<rparr>"

section \<open>Basic facts\<close>

lemma topics_distinct:
  "AuthenticateTopic \<noteq> TokenUpdateTopic" "AuthenticateTopic \<noteq> ConnectTopic"
  "AuthenticateTopic \<noteq> CheckoutTopic" "TokenUpdateTopic \<noteq> ConnectTopic"
  "TokenUpdateTopic \<noteq> CheckoutTopic" "ConnectTopic \<noteq> CheckoutTopic"
  by (simp_all add: AuthenticateTopic_def TokenUpdateTopic_def ConnectTopic_def CheckoutTopic_def)

lemma log_add_simps:
  "srv (log_add l st) = srv st" "resp (log_add l st) = resp st"
  "sent (log_add l st) = sent st" "proc (log_add l st) = proc st"
  "logs (log_add l st) = logs st @ [l]"
  by (simp_all add: log_add_def)

lemma store_Device_simps:
  "Devices (srv (store_Device k d st)) = (Devices (srv st))(k \<mapsto> d)"
  "MDMServerURL (srv (store_Device k d st)) = MDMServerURL (srv st)"
  "MDMAPIKey (srv (store_Device k d st)) = MDMAPIKey (srv st)"
  "resp (store_Device k d st) = resp st" "sent (store_Device k d st) = sent st"
  "proc (store_Device k d st) = proc st" "logs (store_Device k d st) = logs st"
  by (simp_all add: store_Device_def)

lemma http_Error_fresh:
  "wrote_header w = None \<Longrightarrow> response_status (http_Error w msg code) = code"
  by (simp add: http_Error_def response_status_def)

subsection \<open>The switch of \<open>handleWebhook\<close>\<close>

lemma handleWebhook_Authenticate:
  "Topic event = AuthenticateTopic \<Longrightarrow>
     handleWebhook e (Inr event) st = handleAuthenticate e event st"
  by (simp add: handleWebhook_def)

lemma handleWebhook_TokenUpdate:
  "Topic event = TokenUpdateTopic \<Longrightarrow>
     handleWebhook e (Inr event) st = handleTokenUpdate e event st"
  by (simp add: handleWebhook_def topics_distinct topics_distinct [symmetric])

lemma handleWebhook_Connect:
  "Topic event = ConnectTopic \<Longrightarrow>
     handleWebhook e (Inr event) st = handleConnect e event st"
  by (simp add: handleWebhook_def topics_distinct topics_distinct [symmetric])

lemma handleWebhook_CheckOut:
  "Topic event = CheckoutTopic \<Longrightarrow>
     handleWebhook e (Inr event) st = handleCheckOut e event st"
  by (simp add: handleWebhook_def topics_distinct topics_distinct [symmetric])

subsection \<open>What \<open>sendCommandToDevice\<close> leaves alone\<close>

lemma sendCommandToDevice_srv: "srv (sendCommandToDevice e d rt st) = srv st"
  by (simp add: sendCommandToDevice_def Let_def log_add_def split: option.splits do_result.splits)

lemma sendCommandToDevice_resp: "resp (sendCommandToDevice e d rt st) = resp st"
  by (simp add: sendCommandToDevice_def Let_def log_add_def split: option.splits do_result.splits)

lemma sendCommandToDevice_sent:
  "sent (sendCommandToDevice e d rt st) =
     (case NewRequest_err e ''POST'' (MDMServerURL (srv st) @ ''/v1/commands'') of
        Some err \<Rightarrow> sent st
      | None \<Rightarrow> sent st @ [command_request (srv st) (UDID d) rt])"
  by (simp add: sendCommandToDevice_def Let_def log_add_def command_request_def json_Encode_def
      split: option.splits do_result.splits)

text \<open>
  When \<open>http.NewRequest\<close> rejects the URL, the source goes on with a nil request (it
  never reads the error) and \<open>SetBasicAuth\<close> panics: nothing is sent and nothing is logged.
\<close>

lemma unparseable_url_panics:
  "sendCommandToDevice env_bad_url \<lparr>UDID = ''ABC'', Enrolled = True\<rparr>
     ''InstalledApplicationList'' world0 = world0\<lparr>proc := Panicked\<rparr>"
  by (simp add: sendCommandToDevice_def env_bad_url_def Let_def)

subsection \<open>\<open>Contains\<close> is the substring test\<close>

lemma HasPrefix_iff: "HasPrefix s p \<longleftrightarrow> (\<exists>post. s = p @ post)"
  by (induction s p rule: HasPrefix.induct) auto

lemma Contains_iff: "Contains s sub \<longleftrightarrow> (\<exists>pre post. s = pre @ sub @ post)"
proof (induction s)
  case Nil
  show ?case by auto
next
  case (Cons c cs)
  have "(\<exists>pre post. c # cs = pre @ sub @ post) \<longleftrightarrow>
        (\<exists>post. c # cs = sub @ post) \<or> (\<exists>pre post. cs = pre @ sub @ post)"
    (is "?L \<longleftrightarrow> ?A \<or> ?B")
  proof
    assume ?L
    then obtain pre post where eq: "c # cs = pre @ sub @ post" by blast
    show "?A \<or> ?B"
    proof (cases pre)
      case Nil
      with eq show ?thesis by auto
    next
      case (Cons x pre')
      with eq have "cs = pre' @ sub @ post" by simp
      then show ?thesis by blast
    qed
  next
    assume "?A \<or> ?B"
    then show ?L
    proof
      assume ?A
      then obtain post where "c # cs = [] @ sub @ post" by auto
      then show ?L by blast
    next
      assume ?B
      then obtain pre post where "cs = pre @ sub @ post" by blast
      then have "c # cs = (c # pre) @ sub @ post" by simp
      then show ?L by blast
    qed
  qed
  with Cons show ?case by (simp add: HasPrefix_iff del: HasPrefix.simps)
qed

subsection \<open>The keys of the map after a handler\<close>

lemma handleConnect_srv: "srv (handleConnect e event st) = srv st"
  by (simp add: handleConnect_def Let_def log_add_simps split: option.splits)

lemma handleAuthenticate_sent: "sent (handleAuthenticate e event st) = sent st"
  by (simp add: handleAuthenticate_def Let_def log_add_simps store_Device_simps
      split: option.splits prod.splits)

lemma handleCheckOut_sent: "sent (handleCheckOut e event st) = sent st"
  by (simp add: handleCheckOut_def Let_def log_add_simps store_Device_simps
      split: option.splits prod.splits)

lemma handleAuthenticate_dom:
  "dom (Devices (srv (handleAuthenticate e event st))) =
     dom (Devices (srv st))
     \<union> (case CheckinEvent event of None \<Rightarrow> {} | Some ci \<Rightarrow> {UDID_checkin ci})"
  by (simp add: handleAuthenticate_def Let_def log_add_simps store_Device_simps
      split: option.splits prod.splits)

lemma handleTokenUpdate_dom:
  "dom (Devices (srv (handleTokenUpdate e event st))) =
     dom (Devices (srv st))
     \<union> (case CheckinEvent event of None \<Rightarrow> {} | Some ci \<Rightarrow> {UDID_checkin ci})"
  by (simp add: handleTokenUpdate_def Let_def log_add_simps store_Device_simps
      sendCommandToDevice_srv split: option.splits prod.splits)

lemma handleCheckOut_dom:
  "dom (Devices (srv (handleCheckOut e event st))) =
     dom (Devices (srv st))
     \<union> (case CheckinEvent event of None \<Rightarrow> {} | Some ci \<Rightarrow> {UDID_checkin ci})"
  by (simp add: handleCheckOut_def Let_def log_add_simps store_Device_simps
      split: option.splits prod.splits)

lemma handleWebhook_dom:
  "dom (Devices (srv (handleWebhook e r st))) = dom (Devices (srv st)) \<union> registers r"
proof (cases r)
  case (Inl err)
  then show ?thesis by (simp add: handleWebhook_def registers_def log_add_simps)
next
  case (Inr event)
  then show ?thesis
    by (simp add: handleWebhook_def registers_def log_add_simps handleAuthenticate_dom
        handleTokenUpdate_dom handleCheckOut_dom handleConnect_srv
        topics_distinct topics_distinct [symmetric])
qed

lemma serve_one_dom:
  "dom (Devices (srv (serve_one e r st))) = dom (Devices (srv st)) \<union> registers r"
  by (simp add: serve_one_def handleWebhook_dom)

section \<open>The handlers of the checkin topics\<close>

text \<open>
  C1. A TokenUpdate event with a checkin payload: whatever the state before, the entry of
  the payload's identifier is afterwards a device with that identifier and
  \<open>Enrolled = True\<close>, and exactly one request is handed to the HTTP client, the command
  \<open>InstalledApplicationList\<close> for that identifier. The state before is arbitrary, so
  this holds for a second and any later token update as for the first. The URL of the
  server is taken to be one that \<open>http.NewRequest\<close> accepts.
\<close>

theorem token_update_enrolls_and_sends:
  assumes "CheckinEvent event = Some ci"
    and "NewRequest_err e ''POST'' (MDMServerURL (srv st) @ ''/v1/commands'') = None"
  shows "Devices (srv (handleTokenUpdate e event st)) (UDID_checkin ci)
           = Some \<lparr>UDID = UDID_checkin ci, Enrolled = True\<rparr>
         \<and> sent (handleTokenUpdate e event st)
           = sent st @ [\<lparr>req_method = ''POST'',
                          req_url = MDMServerURL (srv st) @ ''/v1/commands'',
                          req_basic_auth = Some (''micromdm'', MDMAPIKey (srv st)),
                          req_body = [(''udid'', UDID_checkin ci),
                                      (''request_type'', ''InstalledApplicationList'')]\<rparr>]"
  using assms
  by (simp add: handleTokenUpdate_def Let_def lookup_Device_def zero_Device_def
      sendCommandToDevice_srv sendCommandToDevice_sent store_Device_simps log_add_simps
      command_request_def split: option.splits prod.splits)

text \<open>
  At a state where the device is enrolled already and one command has been sent: the
  token update sends a second one.
\<close>

theorem token_update_enrolls_and_sends_witness:
  "CheckinEvent (checkin_event TokenUpdateTopic ''ABC'') = Some \<lparr>UDID_checkin = ''ABC''\<rparr>
   \<and> NewRequest_err env_up ''POST'' (MDMServerURL (srv world1) @ ''/v1/commands'') = None
   \<and> Devices (srv (handleTokenUpdate env_up (checkin_event TokenUpdateTopic ''ABC'') world1)) ''ABC''
       = Some \<lparr>UDID = ''ABC'', Enrolled = True\<rparr>
   \<and> length (sent world1) = 1
   \<and> sent (handleTokenUpdate env_up (checkin_event TokenUpdateTopic ''ABC'') world1)
       = sent world1 @ [command_request (srv world1) ''ABC'' ''InstalledApplicationList'']"
  using token_update_enrolls_and_sends
    [of "checkin_event TokenUpdateTopic ''ABC''" "\<lparr>UDID_checkin = ''ABC''\<rparr>" env_up world1]
  by (simp add: checkin_event_def world1_def env_up_def command_request_def)

text \<open>
  C3. For an identifier that has no entry in the registry, an Authenticate event whose
  checkin payload carries the identifier leaves an entry under that identifier: a device
  with that identifier and \<open>Enrolled = False\<close>.
\<close>

theorem authenticate_creates_unenrolled:
  assumes "CheckinEvent event = Some ci"
    and "Devices (srv st) (UDID_checkin ci) = None"
  shows "Devices (srv (handleAuthenticate e event st)) (UDID_checkin ci)
           = Some \<lparr>UDID = UDID_checkin ci, Enrolled = False\<rparr>"
  using assms
  by (simp add: handleAuthenticate_def lookup_Device_def zero_Device_def store_Device_def
      log_add_def Let_def)

theorem authenticate_creates_unenrolled_witness:
  "CheckinEvent (checkin_event AuthenticateTopic ''ABC'') = Some \<lparr>UDID_checkin = ''ABC''\<rparr>
   \<and> Devices (srv world0) ''ABC'' = None
   \<and> Devices (srv (handleAuthenticate env_up (checkin_event AuthenticateTopic ''ABC'') world0)) ''ABC''
       = Some \<lparr>UDID = ''ABC'', Enrolled = False\<rparr>"
  using authenticate_creates_unenrolled
    [of "checkin_event AuthenticateTopic ''ABC''" "\<lparr>UDID_checkin = ''ABC''\<rparr>" world0 env_up]
  by (simp add: checkin_event_def world0_def initial_world_def)

text \<open>
  C4. A CheckOut event with a checkin payload: whatever the registry held before (no
  entry, an enrolled device, a device that is not enrolled), the entry of the payload's
  identifier is afterwards a device with that identifier and \<open>Enrolled = False\<close>.
\<close>

theorem checkout_sets_unenrolled:
  assumes "CheckinEvent event = Some ci"
  shows "Devices (srv (handleCheckOut e event st)) (UDID_checkin ci)
           = Some \<lparr>UDID = UDID_checkin ci, Enrolled = False\<rparr>"
  using assms
  by (simp add: handleCheckOut_def Let_def lookup_Device_def zero_Device_def
      store_Device_simps log_add_simps split: option.splits prod.splits)

text \<open>Once from an enrolled device, once from no entry at all.\<close>

theorem checkout_sets_unenrolled_witness:
  "CheckinEvent (checkin_event CheckoutTopic ''ABC'') = Some \<lparr>UDID_checkin = ''ABC''\<rparr>
   \<and> Devices (srv world1) ''ABC'' = Some \<lparr>UDID = ''ABC'', Enrolled = True\<rparr>
   \<and> Devices (srv (handleCheckOut env_up (checkin_event CheckoutTopic ''ABC'') world1)) ''ABC''
       = Some \<lparr>UDID = ''ABC'', Enrolled = False\<rparr>
   \<and> Devices (srv world0) ''ABC'' = None
   \<and> Devices (srv (handleCheckOut env_up (checkin_event CheckoutTopic ''ABC'') world0)) ''ABC''
       = Some \<lparr>UDID = ''ABC'', Enrolled = False\<rparr>"
  using checkout_sets_unenrolled
    [of "checkin_event CheckoutTopic ''ABC''" "\<lparr>UDID_checkin = ''ABC''\<rparr>" env_up world1]
    checkout_sets_unenrolled
    [of "checkin_event CheckoutTopic ''ABC''" "\<lparr>UDID_checkin = ''ABC''\<rparr>" env_up world0]
  by (simp add: checkin_event_def world1_def world0_def initial_world_def)

text \<open>
  C10. The handlers of Authenticate, TokenUpdate and CheckOut, called with a checkin
  payload for the identifier \<open>u\<close>, leave the entry of every other identifier as it was.
\<close>

theorem handlers_write_only_their_identifier:
  assumes "CheckinEvent event = Some ci" and "k \<noteq> UDID_checkin ci"
  shows "Devices (srv (handleAuthenticate e event st)) k = Devices (srv st) k
         \<and> Devices (srv (handleTokenUpdate e event st)) k = Devices (srv st) k
         \<and> Devices (srv (handleCheckOut e event st)) k = Devices (srv st) k"
  using assms
  by (simp add: handleAuthenticate_def handleTokenUpdate_def handleCheckOut_def Let_def
      store_Device_simps log_add_simps sendCommandToDevice_srv split: prod.splits)

theorem handlers_write_only_their_identifier_witness:
  "CheckinEvent (checkin_event CheckoutTopic ''ABC'') = Some \<lparr>UDID_checkin = ''ABC''\<rparr>
   \<and> ''XYZ'' \<noteq> UDID_checkin \<lparr>UDID_checkin = ''ABC''\<rparr>
   \<and> Devices (srv world1) ''XYZ'' = Some \<lparr>UDID = ''XYZ'', Enrolled = True\<rparr>
   \<and> Devices (srv (handleAuthenticate env_up (checkin_event CheckoutTopic ''ABC'') world1)) ''XYZ''
       = Some \<lparr>UDID = ''XYZ'', Enrolled = True\<rparr>
   \<and> Devices (srv (handleTokenUpdate env_up (checkin_event CheckoutTopic ''ABC'') world1)) ''XYZ''
       = Some \<lparr>UDID = ''XYZ'', Enrolled = True\<rparr>
   \<and> Devices (srv (handleCheckOut env_up (checkin_event CheckoutTopic ''ABC'') world1)) ''XYZ''
       = Some \<lparr>UDID = ''XYZ'', Enrolled = True\<rparr>"
  using handlers_write_only_their_identifier
      [of "checkin_event CheckoutTopic ''ABC''" "\<lparr>UDID_checkin = ''ABC''\<rparr>" "''XYZ''" env_up world1]
  by (simp add: checkin_event_def world1_def)

section \<open>Events that are refused or ignored\<close>

text \<open>
  C5. An event with the topic Authenticate, TokenUpdate or CheckOut and no checkin
  payload, arriving with a writer to which nothing has been written: the response has the
  status 400, the server (its map of devices included) is unchanged, and no request is
  handed to the HTTP client.
\<close>

theorem missing_checkin_is_bad_request:
  assumes "Topic event = AuthenticateTopic \<or> Topic event = TokenUpdateTopic
           \<or> Topic event = CheckoutTopic"
    and "CheckinEvent event = None"
    and "wrote_header (resp st) = None"
  shows "response_status (resp (handleWebhook e (Inr event) st)) = StatusBadRequest
         \<and> srv (handleWebhook e (Inr event) st) = srv st
         \<and> sent (handleWebhook e (Inr event) st) = sent st
         \<and> proc (handleWebhook e (Inr event) st) = proc st"
  using assms
  by (auto simp: handleWebhook_Authenticate handleWebhook_TokenUpdate handleWebhook_CheckOut
      handleAuthenticate_def handleTokenUpdate_def handleCheckOut_def Let_def log_add_simps
      http_Error_fresh)

theorem missing_checkin_is_bad_request_witness:
  "(Topic (bare_event TokenUpdateTopic) = AuthenticateTopic
      \<or> Topic (bare_event TokenUpdateTopic) = TokenUpdateTopic
      \<or> Topic (bare_event TokenUpdateTopic) = CheckoutTopic)
   \<and> CheckinEvent (bare_event TokenUpdateTopic) = None
   \<and> wrote_header (resp world1) = None
   \<and> response_status (resp (handleWebhook env_up (Inr (bare_event TokenUpdateTopic)) world1)) = 400
   \<and> srv (handleWebhook env_up (Inr (bare_event TokenUpdateTopic)) world1) = srv world1
   \<and> sent (handleWebhook env_up (Inr (bare_event TokenUpdateTopic)) world1) = sent world1"
  using missing_checkin_is_bad_request [of "bare_event TokenUpdateTopic" world1 env_up]
  by (simp add: bare_event_def world1_def new_writer_def StatusBadRequest_def)

text \<open>
  C6. An event whose topic is none of the four: the server, the requests sent, the
  response (so no error status is written) and the status of the process are unchanged,
  and the log grows by exactly one entry, the warning. No handler has run: each of the
  four starts with an \<open>Infof\<close> entry, and there is none.
\<close>

theorem unknown_topic_only_warns:
  assumes "Topic event \<noteq> AuthenticateTopic" and "Topic event \<noteq> TokenUpdateTopic"
    and "Topic event \<noteq> ConnectTopic" and "Topic event \<noteq> CheckoutTopic"
  shows "srv (handleWebhook e (Inr event) st) = srv st
         \<and> sent (handleWebhook e (Inr event) st) = sent st
         \<and> resp (handleWebhook e (Inr event) st) = resp st
         \<and> proc (handleWebhook e (Inr event) st) = proc st
         \<and> logs (handleWebhook e (Inr event) st)
             = logs st @ [LogrusWarnf warn_topic [ArgStr (Topic event)]]"
  using assms by (simp add: handleWebhook_def log_add_simps)

theorem unknown_topic_only_warns_witness:
  "Topic (checkin_event ''mdm.Unknown'' ''ABC'') \<noteq> AuthenticateTopic
   \<and> Topic (checkin_event ''mdm.Unknown'' ''ABC'') \<noteq> TokenUpdateTopic
   \<and> Topic (checkin_event ''mdm.Unknown'' ''ABC'') \<noteq> ConnectTopic
   \<and> Topic (checkin_event ''mdm.Unknown'' ''ABC'') \<noteq> CheckoutTopic
   \<and> srv (handleWebhook env_up (Inr (checkin_event ''mdm.Unknown'' ''ABC'')) world0) = srv world0
   \<and> sent (handleWebhook env_up (Inr (checkin_event ''mdm.Unknown'' ''ABC'')) world0) = []
   \<and> response_status (resp (handleWebhook env_up (Inr (checkin_event ''mdm.Unknown'' ''ABC'')) world0)) = 200
   \<and> logs (handleWebhook env_up (Inr (checkin_event ''mdm.Unknown'' ''ABC'')) world0)
       = [LogrusWarnf warn_topic [ArgStr ''mdm.Unknown'']]"
  using unknown_topic_only_warns [of "checkin_event ''mdm.Unknown'' ''ABC''" env_up world0]
  by (simp add: checkin_event_def world0_def initial_world_def new_writer_def
      response_status_def StatusOK_def
      AuthenticateTopic_def TokenUpdateTopic_def ConnectTopic_def CheckoutTopic_def)

section \<open>Connect\<close>

text \<open>
  C7. A Connect event with an acknowledge payload: the handler logs its \<open>Infof\<close> line and
  then, exactly when the raw payload contains \<open>InstalledApplicationList\<close> as a substring,
  one \<open>log.Println\<close> line whose only operand is the raw payload itself, unchanged; it
  logs nothing else. The server (its map of devices included) is unchanged and no request
  is handed to the HTTP client.
\<close>

theorem connect_logs_blob_iff_marker:
  assumes "AcknowledgeEvent event = Some ack"
  shows "logs (handleConnect e event st)
           = logs st @ [LogrusInfof ''handleConnect for event %+v'' [ArgEvent event]]
             @ (if Contains (RawPayload ack) ''InstalledApplicationList''
                then [LogPrintln [RawPayload ack]] else [])
         \<and> (Contains (RawPayload ack) ''InstalledApplicationList''
              \<longleftrightarrow> (\<exists>pre post. RawPayload ack = pre @ ''InstalledApplicationList'' @ post))
         \<and> srv (handleConnect e event st) = srv st
         \<and> sent (handleConnect e event st) = sent st
         \<and> resp (handleConnect e event st) = resp st
         \<and> proc (handleConnect e event st) = proc st"
  using assms
  by (simp add: handleConnect_def Let_def log_add_simps Contains_iff del: Contains.simps)

text \<open>One payload with the marker, one without.\<close>

theorem connect_logs_blob_iff_marker_witness:
  "AcknowledgeEvent (ack_event ConnectTopic ''ABC'' ''<k>InstalledApplicationList</k>'')
     = Some \<lparr>UDID_ack = ''ABC'', RawPayload = ''<k>InstalledApplicationList</k>''\<rparr>
   \<and> logs (handleConnect env_up
             (ack_event ConnectTopic ''ABC'' ''<k>InstalledApplicationList</k>'') world0)
       = [LogrusInfof ''handleConnect for event %+v''
            [ArgEvent (ack_event ConnectTopic ''ABC'' ''<k>InstalledApplicationList</k>'')],
          LogPrintln [''<k>InstalledApplicationList</k>'']]
   \<and> AcknowledgeEvent (ack_event ConnectTopic ''ABC'' ''<k>DeviceInformation</k>'')
     = Some \<lparr>UDID_ack = ''ABC'', RawPayload = ''<k>DeviceInformation</k>''\<rparr>
   \<and> logs (handleConnect env_up
             (ack_event ConnectTopic ''ABC'' ''<k>DeviceInformation</k>'') world0)
       = [LogrusInfof ''handleConnect for event %+v''
            [ArgEvent (ack_event ConnectTopic ''ABC'' ''<k>DeviceInformation</k>'')]]
   \<and> srv (handleConnect env_up
             (ack_event ConnectTopic ''ABC'' ''<k>InstalledApplicationList</k>'') world0)
       = srv world0
   \<and> sent (handleConnect env_up
             (ack_event ConnectTopic ''ABC'' ''<k>InstalledApplicationList</k>'') world0) = []"
  using connect_logs_blob_iff_marker
      [of "ack_event ConnectTopic ''ABC'' ''<k>InstalledApplicationList</k>''"
          "\<lparr>UDID_ack = ''ABC'', RawPayload = ''<k>InstalledApplicationList</k>''\<rparr>" env_up world0]
    connect_logs_blob_iff_marker
      [of "ack_event ConnectTopic ''ABC'' ''<k>DeviceInformation</k>''"
          "\<lparr>UDID_ack = ''ABC'', RawPayload = ''<k>DeviceInformation</k>''\<rparr>" env_up world0]
  by (simp add: ack_event_def world0_def initial_world_def)

section \<open>The dispatcher\<close>

text \<open>
  C8. For every device and every request type, \<open>sendCommandToDevice\<close> hands exactly one
  request to the HTTP client: a POST to the server's URL followed by \<open>/v1/commands\<close>,
  with the Basic credentials \<open>micromdm\<close> and the configured API key, and a JSON body of
  the two members \<open>udid\<close> (the device's identifier) and \<open>request_type\<close> (the request
  type). The URL of the server is taken to be one that \<open>http.NewRequest\<close> accepts.
\<close>

theorem dispatcher_posts_one_command:
  assumes "NewRequest_err e ''POST'' (MDMServerURL (srv st) @ ''/v1/commands'') = None"
  shows "sent (sendCommandToDevice e d requestType st)
           = sent st @ [\<lparr>req_method = ''POST'',
                          req_url = MDMServerURL (srv st) @ ''/v1/commands'',
                          req_basic_auth = Some (''micromdm'', MDMAPIKey (srv st)),
                          req_body = [(''udid'', UDID d), (''request_type'', requestType)]\<rparr>]"
  using assms by (simp add: sendCommandToDevice_sent command_request_def)

theorem dispatcher_posts_one_command_witness:
  "NewRequest_err env_down ''POST'' (MDMServerURL (srv world0) @ ''/v1/commands'') = None
   \<and> sent (sendCommandToDevice env_down \<lparr>UDID = ''ABC'', Enrolled = True\<rparr> ''DeviceInformation'' world0)
       = [\<lparr>req_method = ''POST'',
            req_url = ''https://mdm.example.com/v1/commands'',
            req_basic_auth = Some (''micromdm'', ''secret''),
            req_body = [(''udid'', ''ABC''), (''request_type'', ''DeviceInformation'')]\<rparr>]"
  using dispatcher_posts_one_command
      [of env_down world0 "\<lparr>UDID = ''ABC'', Enrolled = True\<rparr>" "''DeviceInformation''"]
  by (simp add: env_down_def world0_def initial_world_def)

text \<open>
  C9, as stated, fails. The server answers the POST with the status 401: the credentials
  are rejected, a failed delivery in the words of the specification. \<open>client.Do\<close> returns
  the response and no error, the source drops the response, and the process runs on with
  nothing logged.
\<close>

theorem rejected_credentials_not_fatal_counterexample:
  "delivery_failed
     (client_Do env_unauthorized (length (sent world0))
        (command_request (srv world0) ''ABC'' ''InstalledApplicationList''))
   \<and> sent (sendCommandToDevice env_unauthorized \<lparr>UDID = ''ABC'', Enrolled = True\<rparr>
             ''InstalledApplicationList'' world0)
       = [command_request (srv world0) ''ABC'' ''InstalledApplicationList'']
   \<and> proc (sendCommandToDevice env_unauthorized \<lparr>UDID = ''ABC'', Enrolled = True\<rparr>
             ''InstalledApplicationList'' world0) = Running
   \<and> logs (sendCommandToDevice env_unauthorized \<lparr>UDID = ''ABC'', Enrolled = True\<rparr>
             ''InstalledApplicationList'' world0) = []"
  by (simp add: env_unauthorized_def world0_def initial_world_def sendCommandToDevice_def
      Let_def command_request_def json_Encode_def StatusUnauthorized_def)

text \<open>
  C9, amended. In a running process, with a URL that \<open>http.NewRequest\<close> accepts: the
  process exits if and only if \<open>client.Do\<close> returns an error. When it does, the error
  is logged (by \<open>logrus.Errorf\<close> and by \<open>log.Fatal\<close>) and the process exits with
  status 1; when \<open>client.Do\<close> returns a response, whatever its status code, nothing is
  logged and the process runs on.
\<close>

theorem dispatcher_fatal_iff_transport_error:
  assumes "NewRequest_err e ''POST'' (MDMServerURL (srv st) @ ''/v1/commands'') = None"
    and "proc st = Running"
  shows "(has_exited (proc (sendCommandToDevice e d requestType st))
            \<longleftrightarrow> (\<exists>err. client_Do e (length (sent st))
                            (command_request (srv st) (UDID d) requestType) = DoError err))
         \<and> (case client_Do e (length (sent st)) (command_request (srv st) (UDID d) requestType) of
            DoError err \<Rightarrow>
              proc (sendCommandToDevice e d requestType st) = Exited 1
              \<and> logs (sendCommandToDevice e d requestType st)
                  = logs st @ [LogrusErrorf ''send command to device: %v'' [ArgStr err],
                               LogFatal err]
          | DoResponse code \<Rightarrow>
              proc (sendCommandToDevice e d requestType st) = Running
              \<and> logs (sendCommandToDevice e d requestType st) = logs st)"
  using assms
  by (simp add: sendCommandToDevice_def Let_def log_add_def command_request_def json_Encode_def
      split: do_result.splits)

theorem dispatcher_fatal_iff_transport_error_witness:
  "NewRequest_err env_down ''POST'' (MDMServerURL (srv world0) @ ''/v1/commands'') = None
   \<and> proc world0 = Running
   \<and> client_Do env_down (length (sent world0))
        (command_request (srv world0) ''ABC'' ''InstalledApplicationList'')
       = DoError ''connection refused''
   \<and> proc (sendCommandToDevice env_down \<lparr>UDID = ''ABC'', Enrolled = True\<rparr>
             ''InstalledApplicationList'' world0) = Exited 1
   \<and> logs (sendCommandToDevice env_down \<lparr>UDID = ''ABC'', Enrolled = True\<rparr>
             ''InstalledApplicationList'' world0)
       = [LogrusErrorf ''send command to device: %v'' [ArgStr ''connection refused''],
          LogFatal ''connection refused'']"
  using dispatcher_fatal_iff_transport_error
      [of env_down world0 "\<lparr>UDID = ''ABC'', Enrolled = True\<rparr>" "''InstalledApplicationList''"]
  by (simp add: env_down_def world0_def initial_world_def)

section \<open>The registry over a run of the server\<close>

text \<open>
  C2, as stated, fails. A Connect event references the identifier \<open>ABC\<close> in its
  acknowledge payload and is received; the registry has no entry for \<open>ABC\<close> afterwards.
\<close>

theorem connect_event_creates_no_record_counterexample:
  "''ABC'' \<in> references (Inr (ack_event ConnectTopic ''ABC'' ''<plist/>''))
   \<and> Inr (ack_event ConnectTopic ''ABC'' ''<plist/>'')
       \<in> set (received env_up [Inr (ack_event ConnectTopic ''ABC'' ''<plist/>'')] world0)
   \<and> Devices (srv (serve env_up [Inr (ack_event ConnectTopic ''ABC'' ''<plist/>'')] world0)) ''ABC''
       = None"
  by (simp add: references_def ack_event_def world0_def initial_world_def serve_one_def
      handleWebhook_def handleConnect_def Let_def log_add_def
      AuthenticateTopic_def TokenUpdateTopic_def ConnectTopic_def CheckoutTopic_def)

text \<open>
  C2, amended. After any run of the server, the identifiers with an entry in the registry
  are those that had one before the run, together with the identifiers of the checkin
  payloads of the received events whose topic is Authenticate, TokenUpdate or CheckOut.
  Started from the empty registry, an entry exists if and only if such an event has been
  received for its identifier; no entry is ever removed.
\<close>

theorem registry_keys_are_registered_identifiers:
  "dom (Devices (srv (serve e rs st))) =
     dom (Devices (srv st)) \<union> (\<Union>r \<in> set (received e rs st). registers r)"
proof (induction rs arbitrary: st)
  case Nil
  show ?case by simp
next
  case (Cons r rs)
  show ?case
  proof (cases "has_exited (proc st)")
    case True
    then show ?thesis by simp
  next
    case False
    then show ?thesis
      using Cons.IH [of "serve_one e r st"] by (simp add: serve_one_dom Un_assoc)
  qed
qed

theorem registry_keys_are_registered_identifiers_witness:
  "dom (Devices (srv (serve env_up
          [Inr (checkin_event AuthenticateTopic ''ABC''),
           Inr (ack_event ConnectTopic ''DEF'' ''<plist/>''),
           Inr (checkin_event CheckoutTopic ''ABC'')] world0))) = {''ABC''}"
  using registry_keys_are_registered_identifiers [of env_up
          "[Inr (checkin_event AuthenticateTopic ''ABC''),
           Inr (ack_event ConnectTopic ''DEF'' ''<plist/>''),
           Inr (checkin_event CheckoutTopic ''ABC'')]" world0]
  by (simp add: world0_def initial_world_def serve_one_def handleWebhook_def
      handleAuthenticate_def handleConnect_def handleCheckOut_def Let_def log_add_def
      store_Device_def lookup_Device_def zero_Device_def checkin_event_def ack_event_def
      registers_def AuthenticateTopic_def TokenUpdateTopic_def ConnectTopic_def CheckoutTopic_def)

end
